theory Spec2Isabelle
  imports Main
begin

section \<open>Python strings and formatting\<close>

text \<open>
  Python strings are modelled as \<^typ>\<open>string\<close>, each \<^typ>\<open>char\<close> read as a code point
  below 256. \<open>str.strip()\<close> removes the characters for which \<open>str.isspace\<close> holds; below
  256 these are 9..13, 28..32, 133 and 160.
\<close>

definition py_isspace :: "char \<Rightarrow> bool" where
  "py_isspace c =
     (let n = (of_char c :: nat)
      in (9 \<le> n \<and> n \<le> 13) \<or> (28 \<le> n \<and> n \<le> 32) \<or> n = 133 \<or> n = 160)"

definition strip :: "string \<Rightarrow> string" where
  "strip s = rev (dropWhile py_isspace (rev (dropWhile py_isspace s)))"

definition digit_char :: "nat \<Rightarrow> char" where
  "digit_char d = char_of (48 + d)"

fun str_nat :: "nat \<Rightarrow> string" where
  "str_nat n = (if n < 10 then [digit_char n] else str_nat (n div 10) @ [digit_char (n mod 10)])"

declare str_nat.simps [simp del]

text \<open>\<open>str(i)\<close> of a Python int.\<close>

definition str_int :: "int \<Rightarrow> string" where
  "str_int i = (if i < 0 then CHR ''-'' # str_nat (nat (- i)) else str_nat (nat i))"

definition newline :: string where
  "newline = [CHR 0x0A]"

text \<open>\<open>sep.join(lines)\<close>.\<close>

fun join :: "string \<Rightarrow> string list \<Rightarrow> string" where
  "join sep [] = []"
| "join sep [x] = x"
| "join sep (x # y # ys) = x @ sep @ join sep (y # ys)"

text \<open>\<open>s.endswith(suffix)\<close>.\<close>

definition endswith :: "string \<Rightarrow> string \<Rightarrow> bool" where
  "endswith s suf = (length suf \<le> length s \<and> drop (length s - length suf) s = suf)"

text \<open>An f-string field holding an optional string: \<open>None\<close> is printed as \<open>None\<close>.\<close>

definition fmt_opt :: "string option \<Rightarrow> string" where
  "fmt_opt x = (case x of None \<Rightarrow> ''None'' | Some s \<Rightarrow> s)"

text \<open>Truthiness of an optional string: \<open>None\<close> and the empty string are false.\<close>

definition truthy :: "string option \<Rightarrow> bool" where
  "truthy x = (case x of None \<Rightarrow> False | Some s \<Rightarrow> s \<noteq> [])"

section \<open>Data model\<close>

text \<open>The dictionary \<open>scan_with_rule\<close> returns: seven fixed keys.\<close>

record verdict =
  rule_file :: string
  rule_name :: string
  stdout :: string
  stderr :: string
  return_code :: int
  matches :: bool
  error :: "string option"

text \<open>The attributes \<open>__init__\<close> sets on a \<open>YaraScanner\<close>.\<close>

record scanner =
  yara_path :: string
  rules_dir :: "string option"
  target_file :: "string option"
  output_format :: string
  max_workers :: int
  timeout :: int
  results :: "verdict list"

definition init_scanner ::
  "string \<Rightarrow> string option \<Rightarrow> string option \<Rightarrow> string \<Rightarrow> int \<Rightarrow> int \<Rightarrow> scanner" where
  "init_scanner yp rd tf fmt mw t =
     \<lparr>yara_path = yp, rules_dir = rd, target_file = tf, output_format = fmt,
      max_workers = mw, timeout = t, results = []\<rparr>"

text \<open>
  An exception, carrying \<open>str(e)\<close>: \<open>subprocess.TimeoutExpired\<close>, or any other subclass of
  \<open>Exception\<close>. (\<open>KeyboardInterrupt\<close> and \<open>SystemExit\<close>, which \<open>except Exception\<close> lets
  through, are not raised by \<open>subprocess.run\<close> in a worker thread.)
\<close>

datatype py_exn = TimeoutExpired string | Exception string

fun exn_str :: "py_exn \<Rightarrow> string" where
  "exn_str (TimeoutExpired m) = m"
| "exn_str (Exception m) = m"

text \<open>The \<open>CompletedProcess\<close> of \<open>subprocess.run(..., capture_output=True, text=True)\<close>.\<close>

record completed_process =
  p_stdout :: string
  p_stderr :: string
  p_returncode :: int

text \<open>
  What the code observes of the world: the file system, the engine behind
  \<open>subprocess.run\<close> (by command line and timeout), the order in which
  \<open>as_completed\<close> yields the futures of the submitted rules, the clock, and the
  output channels. \<open>print_raises\<close> gives the message of the exception \<open>print\<close> raises
  for a line (a \<open>UnicodeEncodeError\<close> for a line stdout cannot encode, an \<open>OSError\<close>),
  \<open>open_w\<close> that of \<open>open(path, 'w')\<close>, and \<open>write_raises\<close> that of writing the
  content to the opened file; \<open>None\<close> means the call succeeds.
\<close>

record env =
  isfile :: "string \<Rightarrow> bool"
  isdir :: "string \<Rightarrow> bool"
  walk :: "string \<Rightarrow> (string \<times> string list \<times> string list) list"
  path_join :: "string \<Rightarrow> string \<Rightarrow> string"
  basename :: "string \<Rightarrow> string"
  subprocess_run :: "string option list \<Rightarrow> int \<Rightarrow> py_exn + completed_process"
  as_completed :: "string list \<Rightarrow> string list"
  now_isoformat :: string
  elapsed_2f :: string
  print_raises :: "string \<Rightarrow> string option"
  open_w :: "string \<Rightarrow> string option"
  write_raises :: "string \<Rightarrow> string \<Rightarrow> string option"

text \<open>
  What the code does to the world, in order: a line printed, an engine process launched,
  a file opened for writing (and so truncated), a file's content written.
\<close>

datatype effect =
    Print string
  | Exec "string option list" int
  | OpenFile string
  | WriteFile string string

text \<open>
  A call leaves a trace of effects and either returns a value or raises. \<open>and_then\<close> is
  sequencing: an exception of the first call ends the sequence with the trace so far.
\<close>

type_synonym 'a io = "effect list \<times> (py_exn + 'a)"

definition return_io :: "'a \<Rightarrow> 'a io" where
  "return_io v = ([], Inr v)"

definition and_then :: "'a io \<Rightarrow> ('a \<Rightarrow> 'b io) \<Rightarrow> 'b io" where
  "and_then m f =
     (case m of
        (tr, Inl x) \<Rightarrow> (tr, Inl x)
      | (tr, Inr v) \<Rightarrow> (case f v of (tr', r) \<Rightarrow> (tr @ tr', r)))"

definition py_print :: "env \<Rightarrow> string \<Rightarrow> unit io" where
  "py_print e line =
     (case print_raises e line of
        Some m \<Rightarrow> ([], Inl (Exception m))
      | None \<Rightarrow> ([Print line], Inr ()))"

section \<open>scan\_with\_rule\<close>

definition build_cmd :: "scanner \<Rightarrow> string \<Rightarrow> string option list" where
  "build_cmd s rule =
     [Some (yara_path s), Some ''-s'', Some ''-m'', Some ''-g'', Some rule, target_file s]"

definition timeout_message :: "scanner \<Rightarrow> string" where
  "timeout_message s = ''Timeout after '' @ str_int (timeout s) @ '' seconds''"

definition progress_line :: "env \<Rightarrow> string \<Rightarrow> string" where
  "progress_line e rule = ''Scanning with rule: '' @ basename e rule @ ''...''"

text \<open>
  The progress line is printed before the \<open>try\<close>, so an exception of that \<open>print\<close>
  leaves \<open>scan_with_rule\<close>; the \<open>try\<close> block and its two handlers are the three
  branches after it.
\<close>

definition scan_with_rule :: "env \<Rightarrow> scanner \<Rightarrow> string \<Rightarrow> verdict io" where
  "scan_with_rule e s rule =
     (let name = basename e rule
      in and_then (py_print e (progress_line e rule))
           (\<lambda>u. let cmd = build_cmd s rule
                in ([Exec cmd (timeout s)],
                    case subprocess_run e cmd (timeout s) of
                      Inr result \<Rightarrow>
                        Inr \<lparr>rule_file = rule, rule_name = name,
                             stdout = strip (p_stdout result),
                             stderr = strip (p_stderr result),
                             return_code = p_returncode result,
                             matches = (strip (p_stdout result) \<noteq> ''''),
                             error = (if strip (p_stderr result) \<noteq> ''''
                                      then Some (strip (p_stderr result)) else None)\<rparr>
                    | Inl (TimeoutExpired m) \<Rightarrow>
                        Inr \<lparr>rule_file = rule, rule_name = name,
                             stdout = '''',
                             stderr = timeout_message s,
                             return_code = - 1,
                             matches = False,
                             error = Some (timeout_message s)\<rparr>
                    | Inl (Exception m) \<Rightarrow>
                        Inr \<lparr>rule_file = rule, rule_name = name,
                             stdout = '''',
                             stderr = m,
                             return_code = - 1,
                             matches = False,
                             error = Some m\<rparr>)))"

section \<open>find\_rule\_files\<close>

definition is_rule_file :: "string \<Rightarrow> bool" where
  "is_rule_file file = (endswith file ''.yar'' \<or> endswith file ''.yara'')"

definition found_message :: "string list \<Rightarrow> string" where
  "found_message rule_files = ''Found '' @ str_nat (length rule_files) @ '' YARA rule files''"

definition find_rule_files :: "env \<Rightarrow> scanner \<Rightarrow> string list io" where
  "find_rule_files e s =
     (if \<not> truthy (rules_dir s) \<or> \<not> isdir e (fmt_opt (rules_dir s))
      then and_then
             (py_print e (''Error: Rules directory not found or not a directory: ''
                          @ fmt_opt (rules_dir s)))
             (\<lambda>u. return_io [])
      else
        (let rule_files =
               concat (map (\<lambda>(root, dirs, files).
                         map (path_join e root) (filter is_rule_file files))
                       (walk e (fmt_opt (rules_dir s))))
         in and_then (py_print e (found_message rule_files)) (\<lambda>u. return_io rule_files)))"

section \<open>run\_scan\<close>

text \<open>
  The collecting loop over \<open>as_completed\<close>: each future is paired with its rule, and
  \<open>future.result()\<close> either returns the worker's verdict or raises what the worker
  raised. The handler prints a line; an exception of that \<open>print\<close> leaves the loop.
\<close>

fun collect_loop :: "env \<Rightarrow> scanner \<Rightarrow> (string \<times> (py_exn + verdict)) list \<Rightarrow> scanner io" where
  "collect_loop e s [] = ([], Inr s)"
| "collect_loop e s ((rule, Inr result) # rest) =
     collect_loop e (s\<lparr>results := results s @ [result]\<rparr>) rest"
| "collect_loop e s ((rule, Inl x) # rest) =
     (case py_print e (''Error processing rule '' @ rule @ '': '' @ exn_str x) of
        (tr, Inl y) \<Rightarrow> (tr, Inl y)
      | (tr, Inr u) \<Rightarrow> (case collect_loop e s rest of (tr', r) \<Rightarrow> (tr @ tr', r)))"

definition target_missing :: "env \<Rightarrow> scanner \<Rightarrow> bool" where
  "target_missing e s = (\<not> truthy (target_file s) \<or> \<not> isfile e (fmt_opt (target_file s)))"

text \<open>
  \<open>ThreadPoolExecutor(max_workers=n)\<close> raises \<open>ValueError\<close> for \<open>n \<le> 0\<close>. The pool
  starts its tasks in submission order, so the workers' progress lines and launches are
  listed in that order, before the collector's lines; how they interleave in time is left
  to the scheduler. Leaving the \<open>with\<close> block waits for every worker, also when the
  collector raises.
\<close>

definition run_scan :: "env \<Rightarrow> scanner \<Rightarrow> scanner io" where
  "run_scan e s =
     (if target_missing e s
      then and_then (py_print e (''Error: Target file not found: '' @ fmt_opt (target_file s)))
             (\<lambda>u. return_io s)
      else
        and_then (find_rule_files e s)
          (\<lambda>rule_files.
             if rule_files = []
             then and_then (py_print e ''No rule files found to scan with.'') (\<lambda>u. return_io s)
             else if max_workers s \<le> 0
             then ([], Inl (Exception ''max_workers must be greater than 0''))
             else
               (let tr_workers = concat (map (\<lambda>rule. fst (scan_with_rule e s rule)) rule_files);
                    futures = map (\<lambda>rule. (rule, snd (scan_with_rule e s rule)))
                                (as_completed e rule_files)
                in and_then (tr_workers, Inr ())
                     (\<lambda>u. and_then (collect_loop e s futures)
                       (\<lambda>s'. and_then
                                (py_print e (newline @ ''Completed scan in '' @ elapsed_2f e
                                             @ '' seconds''))
                         (\<lambda>u. and_then
                                 (py_print e
                                    (''Found '' @ str_nat (length (filter matches (results s')))
                                     @ '' matching rules out of ''
                                     @ str_nat (length rule_files) @ '' total rules''))
                           (\<lambda>u. return_io s')))))))"

section \<open>json.dumps\<close>

datatype json =
    JNull
  | JBool bool
  | JInt int
  | JStr string
  | JList "json list"
  | JDict "(string \<times> json) list"

definition hex_digit :: "nat \<Rightarrow> char" where
  "hex_digit d = (if d < 10 then char_of (48 + d) else char_of (87 + d))"

text \<open>The escapes of \<open>json.dumps\<close> with \<open>ensure_ascii\<close>, for code points below 256.\<close>

definition json_escape_char :: "char \<Rightarrow> string" where
  "json_escape_char c =
     (let n = (of_char c :: nat)
      in if n = 0x22 then [CHR 0x5C, CHR 0x22]
         else if n = 0x5C then [CHR 0x5C, CHR 0x5C]
         else if n = 0x0A then [CHR 0x5C, CHR ''n'']
         else if n = 0x0D then [CHR 0x5C, CHR ''r'']
         else if n = 0x09 then [CHR 0x5C, CHR ''t'']
         else if n = 0x08 then [CHR 0x5C, CHR ''b'']
         else if n = 0x0C then [CHR 0x5C, CHR ''f'']
         else if 0x20 \<le> n \<and> n \<le> 0x7E then [c]
         else [CHR 0x5C, CHR ''u'', CHR ''0'', CHR ''0'', hex_digit (n div 16), hex_digit (n mod 16)])"

definition json_quote :: "string \<Rightarrow> string" where
  "json_quote s = [CHR 0x22] @ concat (map json_escape_char s) @ [CHR 0x22]"

definition newline_indent :: "nat \<Rightarrow> string" where
  "newline_indent level = newline @ replicate (2 * level) CHR '' ''"

text \<open>\<open>json.dumps(value, indent=2)\<close>, at nesting depth \<open>level\<close>.\<close>

fun json_encode :: "nat \<Rightarrow> json \<Rightarrow> string" where
  "json_encode level JNull = ''null''"
| "json_encode level (JBool b) = (if b then ''true'' else ''false'')"
| "json_encode level (JInt i) = str_int i"
| "json_encode level (JStr s) = json_quote s"
| "json_encode level (JList xs) =
     (if xs = [] then ''[]''
      else ''['' @ newline_indent (Suc level)
           @ join ('','' @ newline_indent (Suc level)) (map (json_encode (Suc level)) xs)
           @ newline_indent level @ '']'')"
| "json_encode level (JDict kvs) =
     (if kvs = [] then ''{}''
      else ''{'' @ newline_indent (Suc level)
           @ join ('','' @ newline_indent (Suc level))
               (map (\<lambda>kv. json_quote (fst kv) @ '': '' @ json_encode (Suc level) (snd kv)) kvs)
           @ newline_indent level @ ''}'')"

definition json_dumps :: "json \<Rightarrow> string" where
  "json_dumps j = json_encode 0 j"

section \<open>output\_results\<close>

definition verdict_json :: "verdict \<Rightarrow> json" where
  "verdict_json r =
     JDict [(''rule_file'', JStr (rule_file r)),
            (''rule_name'', JStr (rule_name r)),
            (''stdout'', JStr (stdout r)),
            (''stderr'', JStr (stderr r)),
            (''return_code'', JInt (return_code r)),
            (''matches'', JBool (matches r)),
            (''error'', (case error r of None \<Rightarrow> JNull | Some m \<Rightarrow> JStr m))]"

definition json_opt :: "string option \<Rightarrow> json" where
  "json_opt x = (case x of None \<Rightarrow> JNull | Some v \<Rightarrow> JStr v)"

definition output_data :: "env \<Rightarrow> scanner \<Rightarrow> (string \<times> json) list" where
  "output_data e s =
     [(''scan_time'', JStr (now_isoformat e)),
      (''target_file'', json_opt (target_file s)),
      (''rules_dir'', json_opt (rules_dir s)),
      (''total_rules'', JInt (int (length (results s)))),
      (''matching_rules'', JInt (int (length (filter matches (results s))))),
      (''results'', JList (map verdict_json (results s)))]"

definition output_lines :: "env \<Rightarrow> scanner \<Rightarrow> string list" where
  "output_lines e s =
     [''YARA Scan Results'',
      replicate 37 CHR ''='',
      ''Target File: '' @ fmt_opt (target_file s),
      ''Rules Directory: '' @ fmt_opt (rules_dir s),
      ''Scan Time: '' @ now_isoformat e,
      ''Total Rules: '' @ str_nat (length (results s)),
      ''Matching Rules: '' @ str_nat (length (filter matches (results s))),
      replicate 37 CHR ''='' @ newline]"

text \<open>\<open>sorted(self.results, key=lambda x: not x["matches"])\<close>: a stable sort, \<open>False < True\<close>.\<close>

definition sorted_results :: "scanner \<Rightarrow> verdict list" where
  "sorted_results s = sort_key (\<lambda>x. \<not> matches x) (results s)"

text \<open>The loop over \<open>sorted_results\<close>, appending to \<open>output_lines\<close>.\<close>

fun append_results :: "verdict list \<Rightarrow> string list \<Rightarrow> string list" where
  "append_results [] out = out"
| "append_results (r # rs) out =
     (if matches r
      then append_results rs
             (out @ [''[+] MATCH: '' @ rule_name r, stdout r, replicate 37 CHR ''-''])
      else if truthy (error r)
      then append_results rs
             (out @ [''[!] ERROR: '' @ rule_name r @ '' - '' @ fmt_opt (error r)])
      else append_results rs out)"

definition output_text :: "env \<Rightarrow> scanner \<Rightarrow> string" where
  "output_text e s = join newline (append_results (sorted_results s) (output_lines e s))"


text \<open>
  Delivering the rendered content: to \<open>output_file\<close> when it is given (open, write,
  and a line on the console), to the console otherwise. Each of these calls can raise, and
  an exception leaves \<open>output_results\<close>. Nothing is assigned to the scanner.
\<close>

definition output_results :: "env \<Rightarrow> scanner \<Rightarrow> string option \<Rightarrow> scanner io" where
  "output_results e s output_file =
     (if output_format s = ''json''
      then
        (if truthy output_file
         then (case open_w e (fmt_opt output_file) of
                 Some m \<Rightarrow> ([], Inl (Exception m))
               | None \<Rightarrow>
                   (case write_raises e (fmt_opt output_file)
                           (json_dumps (JDict (output_data e s))) of
                      Some m \<Rightarrow> ([OpenFile (fmt_opt output_file)], Inl (Exception m))
                    | None \<Rightarrow>
                        and_then
                          ([OpenFile (fmt_opt output_file),
                            WriteFile (fmt_opt output_file)
                              (json_dumps (JDict (output_data e s)))], Inr ())
                          (\<lambda>u. and_then
                                  (py_print e (''Results saved to '' @ fmt_opt output_file))
                                  (\<lambda>u. return_io s))))
         else and_then (py_print e (json_dumps (JDict (output_data e s)))) (\<lambda>u. return_io s))
      else
        (if truthy output_file
         then (case open_w e (fmt_opt output_file) of
                 Some m \<Rightarrow> ([], Inl (Exception m))
               | None \<Rightarrow>
                   (case write_raises e (fmt_opt output_file) (output_text e s) of
                      Some m \<Rightarrow> ([OpenFile (fmt_opt output_file)], Inl (Exception m))
                    | None \<Rightarrow>
                        and_then
                          ([OpenFile (fmt_opt output_file),
                            WriteFile (fmt_opt output_file) (output_text e s)], Inr ())
                          (\<lambda>u. and_then
                                  (py_print e (''Results saved to '' @ fmt_opt output_file))
                                  (\<lambda>u. return_io s))))
         else and_then (py_print e (output_text e s)) (\<lambda>u. return_io s)))"

section \<open>main\<close>

text \<open>The namespace \<open>parse_args\<close> returns.\<close>

record args =
  a_rules_dir :: string
  a_target :: string
  a_yara_path :: string
  a_output :: "string option"
  a_format :: string
  a_workers :: int
  a_timeout :: int

definition args_scanner :: "args \<Rightarrow> scanner" where
  "args_scanner a =
     init_scanner (a_yara_path a) (Some (a_rules_dir a)) (Some (a_target a))
       (a_format a) (a_workers a) (a_timeout a)"

definition main :: "env \<Rightarrow> args \<Rightarrow> scanner io" where
  "main e a =
     and_then (run_scan e (args_scanner a)) (\<lambda>s. output_results e s (a_output a))"

text \<open>The interpreter ends with status 1 on an uncaught exception and 0 otherwise.\<close>

definition exit_status :: "py_exn + scanner \<Rightarrow> int" where
  "exit_status r = (case r of Inl x \<Rightarrow> 1 | Inr s \<Rightarrow> 0)"

text \<open>The engine launches of a trace.\<close>

fun is_exec :: "effect \<Rightarrow> bool" where
  "is_exec (Exec cmd t) = True"
| "is_exec (Print m) = False"
| "is_exec (OpenFile f) = False"
| "is_exec (WriteFile f c) = False"

definition invocations :: "effect list \<Rightarrow> effect list" where
  "invocations tr = filter is_exec tr"

section \<open>Reference definitions\<close>

text \<open>The values a list of futures returns, in order; the futures that raise are left out.\<close>

fun returned :: "(py_exn + 'a) list \<Rightarrow> 'a list" where
  "returned [] = []"
| "returned (Inr v # fs) = v # returned fs"
| "returned (Inl x # fs) = returned fs"

text \<open>The rule files a scanner discovers: the value \<open>find_rule_files\<close> returns.\<close>

definition discovered :: "env \<Rightarrow> scanner \<Rightarrow> string list" where
  "discovered e s =
     (if \<not> truthy (rules_dir s) \<or> \<not> isdir e (fmt_opt (rules_dir s)) then []
      else concat (map (\<lambda>(root, dirs, files).
                     map (path_join e root) (filter is_rule_file files))
                   (walk e (fmt_opt (rules_dir s)))))"

text \<open>
  The verdicts one call of \<open>run_scan\<close> adds: none when a precondition fails, and
  otherwise those of the discovered rules whose worker returns, in the order
  \<open>as_completed\<close> yields them.
\<close>

definition new_verdicts :: "env \<Rightarrow> scanner \<Rightarrow> verdict list" where
  "new_verdicts e s =
     (if target_missing e s then []
      else if discovered e s = [] then []
      else returned (map (\<lambda>rule. snd (scan_with_rule e s rule))
                      (as_completed e (discovered e s))))"

text \<open>The lines \<open>run_scan\<close> prints when a precondition fails.\<close>

definition abort_lines :: "env \<Rightarrow> scanner \<Rightarrow> string list" where
  "abort_lines e s =
     (if target_missing e s
      then [''Error: Target file not found: '' @ fmt_opt (target_file s)]
      else if \<not> truthy (rules_dir s) \<or> \<not> isdir e (fmt_opt (rules_dir s))
      then [''Error: Rules directory not found or not a directory: '' @ fmt_opt (rules_dir s),
            ''No rule files found to scan with.'']
      else [''Found 0 YARA rule files'', ''No rule files found to scan with.''])"

text \<open>What a rendering delivers: the structured or the text form of the report.\<close>

definition report_content :: "env \<Rightarrow> scanner \<Rightarrow> string" where
  "report_content e s =
     (if output_format s = ''json'' then json_dumps (JDict (output_data e s))
      else output_text e s)"

text \<open>The text report's block for a match and its line for an error.\<close>

definition match_block :: "verdict \<Rightarrow> string list" where
  "match_block r = [''[+] MATCH: '' @ rule_name r, stdout r, replicate 37 CHR ''-'']"

definition error_line :: "verdict \<Rightarrow> string" where
  "error_line r = ''[!] ERROR: '' @ rule_name r @ '' - '' @ fmt_opt (error r)"

definition errored_non_match :: "verdict \<Rightarrow> bool" where
  "errored_non_match r = (\<not> matches r \<and> truthy (error r))"

section \<open>A sample run\<close>

definition ex_basename :: "string \<Rightarrow> string" where
  "ex_basename p = rev (takeWhile (\<lambda>c. c \<noteq> CHR ''/'') (rev p))"

definition ex_engine :: "string \<Rightarrow> py_exn + completed_process" where
  "ex_engine rule =
     (let name = ex_basename rule
      in if name = ''a.yar''
         then Inr \<lparr>p_stdout = ''rule_a [] /tmp/sample.bin'' @ newline, p_stderr = [],
                   p_returncode = 0\<rparr>
         else if name = ''b.yara''
         then Inr \<lparr>p_stdout = ''rule_b [] /tmp/sample.bin'' @ newline, p_stderr = [],
                   p_returncode = 0\<rparr>
         else if name = ''warn.yar''
         then Inr \<lparr>p_stdout = ''rule_w [] /tmp/sample.bin'' @ newline,
                   p_stderr = ''warning: rule is slow'' @ newline, p_returncode = 0\<rparr>
         else if name = ''bad.yar''
         then Inr \<lparr>p_stdout = [], p_stderr = ''error: syntax error'' @ newline,
                   p_returncode = 1\<rparr>
         else if name = ''fail.yar''
         then Inr \<lparr>p_stdout = ''rule_f [] /tmp/sample.bin'' @ newline, p_stderr = [],
                   p_returncode = 1\<rparr>
         else if name = ''hup.yar''
         then Inr \<lparr>p_stdout = [], p_stderr = [], p_returncode = - 1\<rparr>
         else if name = ''slow.yar''
         then Inl (TimeoutExpired ''timed out after 20 seconds'')
         else Inl (Exception ''[Errno 2] No such file or directory''))"

text \<open>A console that encodes ASCII only: \<open>print\<close> raises for any other character.\<close>

definition ex_console :: "string \<Rightarrow> string option" where
  "ex_console line =
     (if list_all (\<lambda>c. (of_char c :: nat) < 128) line then None
      else Some ''ascii codec cannot encode character: ordinal not in range(128)'')"

definition ex_env :: "(string list \<Rightarrow> string list) \<Rightarrow> string \<Rightarrow> env" where
  "ex_env order clock =
     \<lparr>isfile = (\<lambda>p. p = ''/tmp/sample.bin''),
      isdir = (\<lambda>p. p = ''/rules'' \<or> p = ''/more'' \<or> p = ''/flaky'' \<or> p = ''/empty''),
      walk = (\<lambda>d. if d = ''/rules''
                   then [(''/rules'', [], [''a.yar'', ''notes.txt'', ''b.yara''])]
                   else if d = ''/more''
                   then [(''/more'', [], [''a.yar'', ''caf'' @ [CHR 0xE9] @ ''.yar''])]
                   else if d = ''/flaky''
                   then [(''/flaky'', [], [''slow.yar'', ''gone.yar'', ''a.yar''])]
                   else []),
      path_join = (\<lambda>a b. a @ ''/'' @ b),
      basename = ex_basename,
      subprocess_run = (\<lambda>cmd t. case cmd of
                          [y, f1, f2, f3, Some rule, tgt] \<Rightarrow> ex_engine rule
                        | _ \<Rightarrow> Inl (Exception ''bad command'')),
      as_completed = order,
      now_isoformat = clock,
      elapsed_2f = ''0.10'',
      print_raises = ex_console,
      open_w = (\<lambda>p. None),
      write_raises = (\<lambda>p c. None)\<rparr>"

definition ex_args :: args where
  "ex_args =
     \<lparr>a_rules_dir = ''/rules'', a_target = ''/tmp/sample.bin'', a_yara_path = ''yara'',
      a_output = None, a_format = ''text'', a_workers = 4, a_timeout = 20\<rparr>"

definition ex_scanner :: scanner where
  "ex_scanner = args_scanner ex_args"

definition ex_clock :: string where
  "ex_clock = ''2024-01-01T00:00:00''"

definition ex_verdict_a :: verdict where
  "ex_verdict_a =
     \<lparr>rule_file = ''/rules/a.yar'', rule_name = ''a.yar'',
      stdout = ''rule_a [] /tmp/sample.bin'', stderr = [], return_code = 0,
      matches = True, error = None\<rparr>"

definition ex_verdict_b :: verdict where
  "ex_verdict_b =
     \<lparr>rule_file = ''/rules/b.yara'', rule_name = ''b.yara'',
      stdout = ''rule_b [] /tmp/sample.bin'', stderr = [], return_code = 0,
      matches = True, error = None\<rparr>"

definition ex_verdict_slow :: verdict where
  "ex_verdict_slow =
     \<lparr>rule_file = ''/rules/slow.yar'', rule_name = ''slow.yar'',
      stdout = [], stderr = ''Timeout after 20 seconds'',
      return_code = - 1, matches = False, error = Some ''Timeout after 20 seconds''\<rparr>"

definition ex_verdict_warn :: verdict where
  "ex_verdict_warn =
     \<lparr>rule_file = ''/rules/warn.yar'', rule_name = ''warn.yar'',
      stdout = ''rule_w [] /tmp/sample.bin'', stderr = ''warning: rule is slow'',
      return_code = 0, matches = True, error = Some ''warning: rule is slow''\<rparr>"

definition ex_verdict_bad :: verdict where
  "ex_verdict_bad =
     \<lparr>rule_file = ''/rules/bad.yar'', rule_name = ''bad.yar'',
      stdout = [], stderr = ''error: syntax error'',
      return_code = 1, matches = False, error = Some ''error: syntax error''\<rparr>"

definition ex_verdict_gone :: verdict where
  "ex_verdict_gone =
     \<lparr>rule_file = ''/rules/gone.yar'', rule_name = ''gone.yar'',
      stdout = [], stderr = ''[Errno 2] No such file or directory'',
      return_code = - 1, matches = False,
      error = Some ''[Errno 2] No such file or directory''\<rparr>"

definition ex_verdict_quiet :: verdict where
  "ex_verdict_quiet =
     \<lparr>rule_file = ''/rules/quiet.yar'', rule_name = ''quiet.yar'',
      stdout = [], stderr = [], return_code = 0, matches = False, error = None\<rparr>"

definition ex_after_first :: scanner where
  "ex_after_first = ex_scanner\<lparr>results := [ex_verdict_b, ex_verdict_a]\<rparr>"


definition ex_after_second :: scanner where
  "ex_after_second =
     ex_scanner\<lparr>results := [ex_verdict_b, ex_verdict_a, ex_verdict_a, ex_verdict_b]\<rparr>"

definition ex_mixed :: scanner where
  "ex_mixed =
     ex_scanner\<lparr>results := [ex_verdict_slow, ex_verdict_b, ex_verdict_quiet, ex_verdict_a]\<rparr>"

text \<open>Arguments naming a target that does not exist, a rules directory that does not
  exist, and a rules directory holding a rule file whose name is not ASCII.\<close>

definition ex_args_missing :: args where
  "ex_args_missing = ex_args\<lparr>a_target := ''/nope''\<rparr>"

definition ex_args_no_rules :: args where
  "ex_args_no_rules = ex_args\<lparr>a_rules_dir := ''/norules''\<rparr>"

definition ex_args_cafe :: args where
  "ex_args_cafe = ex_args\<lparr>a_target := ''/tmp/caf'' @ [CHR 0xE9]\<rparr>"

definition ex_args_more :: args where
  "ex_args_more = ex_args\<lparr>a_rules_dir := ''/more''\<rparr>"




text \<open>The rule files in the order of the text report after one run.\<close>

definition report_order :: "env \<Rightarrow> scanner \<Rightarrow> string list" where
  "report_order e s =
     (case snd (run_scan e s) of
        Inr s' \<Rightarrow> map rule_file (sorted_results s')
      | Inl x \<Rightarrow> [])"

section \<open>Auxiliary facts\<close>

lemma snd_and_then:
  "snd (and_then m f) = (case snd m of Inl x \<Rightarrow> Inl x | Inr v \<Rightarrow> snd (f v))"
  by (cases m) (auto simp: and_then_def split: sum.splits prod.splits)

lemma fst_and_then:
  "fst (and_then m f) = (case snd m of Inl x \<Rightarrow> fst m | Inr v \<Rightarrow> fst m @ fst (f v))"
  by (cases m) (auto simp: and_then_def split: sum.splits prod.splits)

lemma py_print_ok: "print_raises e l = None \<Longrightarrow> py_print e l = ([Print l], Inr ())"
  by (simp add: py_print_def)

lemma py_print_raises: "print_raises e l = Some m \<Longrightarrow> py_print e l = ([], Inl (Exception m))"
  by (simp add: py_print_def)

lemma snd_py_print_Inr: "(snd (py_print e l) = Inr u) = (print_raises e l = None)"
  by (simp add: py_print_def split: option.splits)

lemma invocations_py_print: "invocations (fst (py_print e l)) = []"
  by (simp add: py_print_def invocations_def split: option.splits)

lemma find_rule_files_value:
  "snd (find_rule_files e s) = Inr rs \<Longrightarrow> rs = discovered e s"
  by (auto simp: find_rule_files_def discovered_def Let_def snd_and_then return_io_def
      split: if_splits sum.splits)

lemma collect_loop_state:
  "snd (collect_loop e s futs) = Inr s' \<Longrightarrow>
     s' = s\<lparr>results := results s @ returned (map snd futs)\<rparr>"
  by (induction e s futs arbitrary: s' rule: collect_loop.induct)
     (auto split: prod.splits sum.splits)

lemma run_scan_state:
  "snd (run_scan e s) = Inr s' \<Longrightarrow> s' = s\<lparr>results := results s @ new_verdicts e s\<rparr>"
proof (cases "target_missing e s")
  case True
  assume "snd (run_scan e s) = Inr s'"
  with True show ?thesis
    by (auto simp: run_scan_def new_verdicts_def snd_and_then return_io_def split: sum.splits)
next
  case False
  assume r: "snd (run_scan e s) = Inr s'"
  from r False obtain rs where f: "snd (find_rule_files e s) = Inr rs"
    by (auto simp: run_scan_def snd_and_then split: sum.splits)
  then have d: "rs = discovered e s" by (rule find_rule_files_value)
  show ?thesis
  proof (cases "rs = []")
    case True
    with r False f d show ?thesis
      by (auto simp: run_scan_def new_verdicts_def snd_and_then return_io_def
          split: sum.splits)
  next
    case nonempty: False
    with r False f obtain s1 where
      c: "snd (collect_loop e s (map (\<lambda>rule. (rule, snd (scan_with_rule e s rule)))
                                  (as_completed e rs))) = Inr s1" and s1: "s' = s1"
      by (auto simp: run_scan_def snd_and_then return_io_def Let_def
          split: sum.splits if_splits)
    from collect_loop_state [OF c] s1 False nonempty d show ?thesis
      by (simp add: new_verdicts_def comp_def)
  qed
qed

lemma insort_key_skip:
  "\<forall>a \<in> set as. \<not> f x \<le> f a \<Longrightarrow> insort_key f x (as @ bs) = as @ insort_key f x bs"
  by (induction as) auto

lemma insort_key_front:
  "\<forall>a \<in> set bs. f x \<le> f a \<Longrightarrow> insort_key f x bs = x # bs"
  by (cases bs) auto

text \<open>Sorting on the negated flag is the stable partition by the flag.\<close>

lemma sort_key_partition:
  "sort_key (\<lambda>x. \<not> P x) xs = filter P xs @ filter (\<lambda>x. \<not> P x) xs"
proof (induction xs)
  case Nil
  show ?case by simp
next
  case (Cons x xs)
  show ?case
  proof (cases "P x")
    case True
    then have "insort_key (\<lambda>x. \<not> P x) x (filter P xs @ filter (\<lambda>x. \<not> P x) xs)
        = x # filter P xs @ filter (\<lambda>x. \<not> P x) xs"
      by (intro insort_key_front) auto
    with Cons True show ?thesis by simp
  next
    case False
    then have "insort_key (\<lambda>x. \<not> P x) x (filter P xs @ filter (\<lambda>x. \<not> P x) xs)
        = filter P xs @ insort_key (\<lambda>x. \<not> P x) x (filter (\<lambda>x. \<not> P x) xs)"
      by (intro insort_key_skip) auto
    moreover from False have "insort_key (\<lambda>x. \<not> P x) x (filter (\<lambda>x. \<not> P x) xs)
        = x # filter (\<lambda>x. \<not> P x) xs"
      by (intro insort_key_front) auto
    ultimately show ?thesis using Cons False by simp
  qed
qed

lemma append_results_eq:
  "append_results rs out =
     out @ concat (map (\<lambda>r. if matches r then match_block r
                             else if truthy (error r) then [error_line r] else []) rs)"
  by (induction rs arbitrary: out) (auto simp: match_block_def error_line_def)

lemma blocks_of_matches:
  "concat (map (\<lambda>r. if matches r then match_block r
                     else if truthy (error r) then [error_line r] else []) (filter matches rs))
   = concat (map match_block (filter matches rs))"
  by (induction rs) auto

lemma lines_of_non_matches:
  "concat (map (\<lambda>r. if matches r then match_block r
                     else if truthy (error r) then [error_line r] else [])
             (filter (\<lambda>r. \<not> matches r) rs))
   = map error_line (filter errored_non_match rs)"
  by (induction rs) (auto simp: errored_non_match_def)

section \<open>The verdict of one invocation\<close>

text \<open>
  Claim C1, as the code has it: when the engine process completes (the progress line was
  printed and \<open>subprocess.run\<close> returned), \<open>scan_with_rule\<close> returns a verdict whose
  \<open>matches\<close> flag is true exactly when the trimmed stdout is non-empty, whatever the
  exit status; the trimmed stdout and the exit status are recorded as they are.
\<close>

theorem matches_iff_stdout_nonblank:
  assumes "print_raises e (progress_line e rule) = None"
    and "subprocess_run e (build_cmd s rule) (timeout s) = Inr p"
  shows "\<exists>v. snd (scan_with_rule e s rule) = Inr v
            \<and> (matches v \<longleftrightarrow> strip (p_stdout p) \<noteq> [])
            \<and> stdout v = strip (p_stdout p)
            \<and> return_code v = p_returncode p"
  using assms by (simp add: scan_with_rule_def Let_def snd_and_then py_print_ok)

lemma ex_fail_print:
  "print_raises (ex_env rev ex_clock) (progress_line (ex_env rev ex_clock) ''/rules/fail.yar'')
   = None"
  by code_simp

lemma ex_fail_run:
  "subprocess_run (ex_env rev ex_clock) (build_cmd ex_scanner ''/rules/fail.yar'')
     (timeout ex_scanner)
   = Inr \<lparr>p_stdout = ''rule_f [] /tmp/sample.bin'' @ newline, p_stderr = [],
          p_returncode = 1\<rparr>"
  by code_simp

theorem matches_iff_stdout_nonblank_witness:
  "\<exists>v. snd (scan_with_rule (ex_env rev ex_clock) ex_scanner ''/rules/fail.yar'') = Inr v
       \<and> (matches v \<longleftrightarrow>
            strip (p_stdout \<lparr>p_stdout = ''rule_f [] /tmp/sample.bin'' @ newline,
                             p_stderr = [], p_returncode = 1\<rparr>) \<noteq> [])
       \<and> stdout v =
            strip (p_stdout \<lparr>p_stdout = ''rule_f [] /tmp/sample.bin'' @ newline,
                             p_stderr = [], p_returncode = 1\<rparr>)
       \<and> return_code v =
            p_returncode \<lparr>p_stdout = ''rule_f [] /tmp/sample.bin'' @ newline,
                          p_stderr = [], p_returncode = 1\<rparr>"
  by (rule matches_iff_stdout_nonblank [OF ex_fail_print ex_fail_run])

text \<open>
  Claim C1 as stated fails: an engine that prints a match line and exits with status 1
  gives a verdict with \<open>matches = True\<close> and \<open>return_code = 1\<close>.
\<close>

theorem nonzero_exit_still_matches:
  "snd (scan_with_rule (ex_env rev ex_clock) ex_scanner ''/rules/fail.yar'') =
     Inr \<lparr>rule_file = ''/rules/fail.yar'', rule_name = ''fail.yar'',
          stdout = ''rule_f [] /tmp/sample.bin'', stderr = [], return_code = 1,
          matches = True, error = None\<rparr>"
  by code_simp

text \<open>
  Claim C2, as the code has it: when the process completes, \<open>matches\<close> is decided by
  the trimmed stdout alone and the error by the trimmed stderr alone: the error is the
  trimmed stderr when that is non-empty and unset otherwise. After a timeout the verdict
  has \<open>matches = False\<close> and the timeout message as its error; after any other
  exception it has \<open>matches = False\<close> and the exception's text as its error. So
  \<open>matches\<close> holds together with an error exactly when a completed process left
  non-blank text on both stdout and stderr.
\<close>

theorem error_and_matches:
  assumes "snd (scan_with_rule e s rule) = Inr v"
  shows "(\<forall>p. subprocess_run e (build_cmd s rule) (timeout s) = Inr p \<longrightarrow>
            (matches v \<longleftrightarrow> strip (p_stdout p) \<noteq> [])
            \<and> error v = (if strip (p_stderr p) \<noteq> [] then Some (strip (p_stderr p)) else None))
       \<and> (\<forall>m. subprocess_run e (build_cmd s rule) (timeout s) = Inl (TimeoutExpired m) \<longrightarrow>
            \<not> matches v \<and> error v = Some (timeout_message s))
       \<and> (\<forall>m. subprocess_run e (build_cmd s rule) (timeout s) = Inl (Exception m) \<longrightarrow>
            \<not> matches v \<and> error v = Some m)
       \<and> (matches v \<and> error v \<noteq> None \<longleftrightarrow>
            (\<exists>p. subprocess_run e (build_cmd s rule) (timeout s) = Inr p
                 \<and> strip (p_stdout p) \<noteq> [] \<and> strip (p_stderr p) \<noteq> []))"
proof -
  from assms have ok: "print_raises e (progress_line e rule) = None"
    by (cases "print_raises e (progress_line e rule)")
       (simp_all add: scan_with_rule_def Let_def snd_and_then py_print_def)
  show ?thesis
  proof (cases "subprocess_run e (build_cmd s rule) (timeout s)")
    case (Inl x)
    with assms ok show ?thesis
      by (cases x) (auto simp: scan_with_rule_def Let_def snd_and_then py_print_ok)
  next
    case (Inr p)
    with assms ok show ?thesis
      by (auto simp: scan_with_rule_def Let_def snd_and_then py_print_ok)
  qed
qed

text \<open>
  Claim C2 as stated fails: an engine that prints a match line, writes a warning to stderr
  and exits with status 0 gives a verdict with \<open>matches = True\<close> and the warning as its
  error.
\<close>

theorem match_with_error:
  "snd (scan_with_rule (ex_env rev ex_clock) ex_scanner ''/rules/warn.yar'') =
     Inr \<lparr>rule_file = ''/rules/warn.yar'', rule_name = ''warn.yar'',
          stdout = ''rule_w [] /tmp/sample.bin'', stderr = ''warning: rule is slow'',
          return_code = 0, matches = True, error = Some ''warning: rule is slow''\<rparr>"
  by code_simp

lemma ex_warn_verdict:
  "snd (scan_with_rule (ex_env rev ex_clock) ex_scanner ''/rules/warn.yar'') = Inr ex_verdict_warn"
  by code_simp

lemma ex_warn_run:
  "subprocess_run (ex_env rev ex_clock) (build_cmd ex_scanner ''/rules/warn.yar'')
     (timeout ex_scanner)
   = Inr \<lparr>p_stdout = ''rule_w [] /tmp/sample.bin'' @ newline,
          p_stderr = ''warning: rule is slow'' @ newline, p_returncode = 0\<rparr>"
  by code_simp

lemma ex_bad_verdict:
  "snd (scan_with_rule (ex_env rev ex_clock) ex_scanner ''/rules/bad.yar'') = Inr ex_verdict_bad"
  by code_simp

lemma ex_bad_run:
  "subprocess_run (ex_env rev ex_clock) (build_cmd ex_scanner ''/rules/bad.yar'')
     (timeout ex_scanner)
   = Inr \<lparr>p_stdout = [], p_stderr = ''error: syntax error'' @ newline, p_returncode = 1\<rparr>"
  by code_simp

lemma ex_slow_verdict:
  "snd (scan_with_rule (ex_env rev ex_clock) ex_scanner ''/rules/slow.yar'') = Inr ex_verdict_slow"
  by code_simp

lemma ex_slow_print:
  "print_raises (ex_env rev ex_clock) (progress_line (ex_env rev ex_clock) ''/rules/slow.yar'')
   = None"
  by code_simp

lemma ex_slow_run:
  "subprocess_run (ex_env rev ex_clock) (build_cmd ex_scanner ''/rules/slow.yar'')
     (timeout ex_scanner)
   = Inl (TimeoutExpired ''timed out after 20 seconds'')"
  by code_simp

lemma ex_gone_verdict:
  "snd (scan_with_rule (ex_env rev ex_clock) ex_scanner ''/rules/gone.yar'') = Inr ex_verdict_gone"
  by code_simp

lemma ex_gone_run:
  "subprocess_run (ex_env rev ex_clock) (build_cmd ex_scanner ''/rules/gone.yar'')
     (timeout ex_scanner)
   = Inl (Exception ''[Errno 2] No such file or directory'')"
  by code_simp

lemma ex_strip_warning:
  "strip (''warning: rule is slow'' @ newline) = ''warning: rule is slow''
   \<and> strip (''error: syntax error'' @ newline) = ''error: syntax error''
   \<and> strip (''rule_w [] /tmp/sample.bin'' @ newline) = ''rule_w [] /tmp/sample.bin''
   \<and> strip [] = []"
  by code_simp

text \<open>
  The four paths at the sample engine: a match with a warning, a rule the engine rejects
  on stderr, a timeout, and a launch failure.
\<close>

theorem error_and_matches_witness:
  "snd (scan_with_rule (ex_env rev ex_clock) ex_scanner ''/rules/warn.yar'') = Inr ex_verdict_warn
   \<and> matches ex_verdict_warn
   \<and> error ex_verdict_warn = Some ''warning: rule is slow''
   \<and> snd (scan_with_rule (ex_env rev ex_clock) ex_scanner ''/rules/bad.yar'') = Inr ex_verdict_bad
   \<and> \<not> matches ex_verdict_bad
   \<and> error ex_verdict_bad = Some ''error: syntax error''
   \<and> snd (scan_with_rule (ex_env rev ex_clock) ex_scanner ''/rules/slow.yar'') = Inr ex_verdict_slow
   \<and> \<not> matches ex_verdict_slow
   \<and> error ex_verdict_slow = Some (timeout_message ex_scanner)
   \<and> snd (scan_with_rule (ex_env rev ex_clock) ex_scanner ''/rules/gone.yar'') = Inr ex_verdict_gone
   \<and> \<not> matches ex_verdict_gone
   \<and> error ex_verdict_gone = Some ''[Errno 2] No such file or directory''"
  using error_and_matches [OF ex_warn_verdict] error_and_matches [OF ex_bad_verdict]
    error_and_matches [OF ex_slow_verdict] error_and_matches [OF ex_gone_verdict]
    ex_warn_verdict ex_bad_verdict ex_slow_verdict ex_gone_verdict
    ex_warn_run ex_bad_run ex_slow_run ex_gone_run ex_strip_warning
  by simp

text \<open>
  Claim C4, as the code has it: when the invocation times out, the verdict has
  \<open>matches = False\<close>, the exit status \<open>-1\<close>, an empty stdout, and the message naming
  the configured timeout both as its error and as its stderr.
\<close>

theorem timeout_verdict:
  assumes "print_raises e (progress_line e rule) = None"
    and "subprocess_run e (build_cmd s rule) (timeout s) = Inl (TimeoutExpired m)"
  shows "\<exists>v. snd (scan_with_rule e s rule) = Inr v
            \<and> \<not> matches v
            \<and> return_code v = - 1
            \<and> error v = Some (''Timeout after '' @ str_int (timeout s) @ '' seconds'')
            \<and> stdout v = []
            \<and> stderr v = ''Timeout after '' @ str_int (timeout s) @ '' seconds''"
  using assms
  by (simp add: scan_with_rule_def Let_def timeout_message_def snd_and_then py_print_ok)

theorem timeout_verdict_witness:
  "\<exists>v. snd (scan_with_rule (ex_env rev ex_clock) ex_scanner ''/rules/slow.yar'') = Inr v
       \<and> \<not> matches v
       \<and> return_code v = - 1
       \<and> error v = Some (''Timeout after '' @ str_int (timeout ex_scanner) @ '' seconds'')
       \<and> stdout v = []
       \<and> stderr v = ''Timeout after '' @ str_int (timeout ex_scanner) @ '' seconds''"
  by (rule timeout_verdict [OF ex_slow_print ex_slow_run])

text \<open>
  Claim C4 as stated fails: after a timeout the stderr field is not empty, it holds the
  timeout message; and the exit status \<open>-1\<close> is also what a completed process reports
  when the engine was killed by signal 1.
\<close>

theorem timeout_stderr_not_empty:
  "snd (scan_with_rule (ex_env rev ex_clock) ex_scanner ''/rules/slow.yar'') =
     Inr \<lparr>rule_file = ''/rules/slow.yar'', rule_name = ''slow.yar'',
          stdout = [], stderr = ''Timeout after 20 seconds'',
          return_code = - 1, matches = False, error = Some ''Timeout after 20 seconds''\<rparr>
   \<and> snd (scan_with_rule (ex_env rev ex_clock) ex_scanner ''/rules/hup.yar'') =
     Inr \<lparr>rule_file = ''/rules/hup.yar'', rule_name = ''hup.yar'',
          stdout = [], stderr = [],
          return_code = - 1, matches = False, error = None\<rparr>"
  by code_simp

lemma scan_with_rule_printed:
  assumes "print_raises e (progress_line e rule) = None"
  shows "\<exists>v. scan_with_rule e s rule =
              ([Print (progress_line e rule), Exec (build_cmd s rule) (timeout s)], Inr v)
            \<and> rule_file v = rule \<and> rule_name v = basename e rule"
  using assms
  by (cases "subprocess_run e (build_cmd s rule) (timeout s)")
     (auto simp: scan_with_rule_def Let_def and_then_def py_print_ok split: py_exn.splits)












section \<open>The batch\<close>

lemma scan_with_rule_results:
  "scan_with_rule e (s\<lparr>results := rs\<rparr>) rule = scan_with_rule e s rule"
  by (simp add: scan_with_rule_def build_cmd_def timeout_message_def Let_def and_then_def
      split: sum.splits py_exn.splits prod.splits)

lemma discovered_results:
  "discovered e (s\<lparr>results := rs\<rparr>) = discovered e s"
  unfolding discovered_def by simp

lemma target_missing_results:
  "target_missing e (s\<lparr>results := rs\<rparr>) = target_missing e s"
  unfolding target_missing_def by simp

lemma new_verdicts_results:
  "new_verdicts e (s\<lparr>results := rs\<rparr>) = new_verdicts e s"
  unfolding new_verdicts_def
  by (simp only: scan_with_rule_results discovered_results target_missing_results)

lemma ex_first_run: "snd (run_scan (ex_env rev ex_clock) ex_scanner) = Inr ex_after_first"
  by code_simp

lemma ex_second_run:
  "snd (run_scan (ex_env (\<lambda>xs. xs) ex_clock) ex_after_first) = Inr ex_after_second"
  by code_simp

text \<open>
  Claim C3, as the code has it: a run appends the verdicts in the order in which
  \<open>as_completed\<close> yields them. The text report goes through the collected verdicts with
  every match before every non-match, and within each group in the order of collection;
  the structured report lists the collected verdicts as they are, unsorted.
\<close>

theorem report_order_is_collection_order:
  assumes "snd (run_scan e s) = Inr s'"
  shows "results s' = results s @ new_verdicts e s
       \<and> sorted_results s' =
           filter matches (results s') @ filter (\<lambda>v. \<not> matches v) (results s')
       \<and> map_of (output_data e s') ''results'' = Some (JList (map verdict_json (results s')))"
  using run_scan_state [OF assms]
  by (simp add: sorted_results_def sort_key_partition output_data_def)

theorem report_order_is_collection_order_witness:
  "snd (run_scan (ex_env rev ex_clock) ex_scanner) = Inr ex_after_first
   \<and> results ex_after_first = results ex_scanner @ new_verdicts (ex_env rev ex_clock) ex_scanner
   \<and> sorted_results ex_after_first =
       filter matches (results ex_after_first)
       @ filter (\<lambda>v. \<not> matches v) (results ex_after_first)
   \<and> map_of (output_data (ex_env rev ex_clock) ex_after_first) ''results'' =
       Some (JList (map verdict_json (results ex_after_first)))"
  using report_order_is_collection_order [OF ex_first_run] ex_first_run by blast

text \<open>
  Claim C3 as stated fails: two rules are discovered as \<open>a.yar\<close>, \<open>b.yara\<close> and both
  match. When the second completes first the report lists \<open>b.yara\<close> before \<open>a.yar\<close>;
  when they complete in submission order it lists \<open>a.yar\<close> first.
\<close>

theorem report_follows_completion_order:
  "snd (find_rule_files (ex_env rev ex_clock) ex_scanner)
     = Inr [''/rules/a.yar'', ''/rules/b.yara'']
   \<and> report_order (ex_env rev ex_clock) ex_scanner = [''/rules/b.yara'', ''/rules/a.yar'']
   \<and> report_order (ex_env (\<lambda>xs. xs) ex_clock) ex_scanner = [''/rules/a.yar'', ''/rules/b.yara'']"
  by code_simp

text \<open>
  Claim C9: the results list is empty at construction and a run only appends to it. After
  two runs that return, the results are the earlier results, then the verdicts of the
  first run, then those of the second, so the length counts both batches.
\<close>

theorem results_accumulate:
  assumes "snd (run_scan e1 s) = Inr s1" and "snd (run_scan e2 s1) = Inr s2"
  shows "results s2 = results s @ new_verdicts e1 s @ new_verdicts e2 s
       \<and> length (results s2) =
           length (results s) + length (new_verdicts e1 s) + length (new_verdicts e2 s)
       \<and> results (init_scanner yp rd tf fmt mw t) = []"
proof -
  have s1: "s1 = s\<lparr>results := results s @ new_verdicts e1 s\<rparr>"
    by (rule run_scan_state [OF assms(1)])
  have "results s2 = results s1 @ new_verdicts e2 s1"
    using run_scan_state [OF assms(2)] by simp
  then have "results s2 = results s @ new_verdicts e1 s @ new_verdicts e2 s"
    by (simp add: s1 new_verdicts_results)
  then show ?thesis by (simp add: init_scanner_def)
qed

theorem results_accumulate_witness:
  "snd (run_scan (ex_env rev ex_clock) ex_scanner) = Inr ex_after_first
   \<and> snd (run_scan (ex_env (\<lambda>xs. xs) ex_clock) ex_after_first) = Inr ex_after_second
   \<and> results ex_after_second =
       results ex_scanner @ new_verdicts (ex_env rev ex_clock) ex_scanner
       @ new_verdicts (ex_env (\<lambda>xs. xs) ex_clock) ex_scanner
   \<and> length (results ex_after_second) =
       length (results ex_scanner) + length (new_verdicts (ex_env rev ex_clock) ex_scanner)
       + length (new_verdicts (ex_env (\<lambda>xs. xs) ex_clock) ex_scanner)
   \<and> results (init_scanner ''yara'' None None ''text'' 4 20) = []"
  using results_accumulate [OF ex_first_run ex_second_run] ex_first_run ex_second_run
  by blast

lemma found_no_rules: "found_message [] = ''Found 0 YARA rule files''"
  by code_simp

lemma invocations_append: "invocations (xs @ ys) = invocations xs @ invocations ys"
  by (simp add: invocations_def)

lemma invocations_output_results: "invocations (fst (output_results e s f)) = []"
  by (simp add: output_results_def and_then_def py_print_def return_io_def invocations_def
      split: option.splits)

lemma find_rule_files_eq:
  "find_rule_files e s =
     (if \<not> truthy (rules_dir s) \<or> \<not> isdir e (fmt_opt (rules_dir s))
      then and_then
             (py_print e (''Error: Rules directory not found or not a directory: ''
                          @ fmt_opt (rules_dir s)))
             (\<lambda>u. return_io [])
      else and_then (py_print e (found_message (discovered e s)))
             (\<lambda>u. return_io (discovered e s)))"
  by (simp add: find_rule_files_def discovered_def Let_def)

lemma run_scan_abort:
  assumes "target_missing e s \<or> discovered e s = []"
  shows "run_scan e s =
           (case abort_lines e s of
              [l] \<Rightarrow> and_then (py_print e l) (\<lambda>u. return_io s)
            | l # l' # ls \<Rightarrow>
                and_then (py_print e l) (\<lambda>u. and_then (py_print e l') (\<lambda>u. return_io s))
            | [] \<Rightarrow> return_io s)"
proof (cases "target_missing e s")
  case True
  then show ?thesis by (simp add: run_scan_def abort_lines_def)
next
  case False
  with assms have d: "discovered e s = []" by simp
  from False d show ?thesis
    by (auto simp: run_scan_def abort_lines_def find_rule_files_eq and_then_def
        py_print_def return_io_def found_no_rules split: option.splits)
qed

lemma abort_lines_cases:
  "(\<exists>l. abort_lines e s = [l]) \<or> (\<exists>l l'. abort_lines e s = [l, l'])"
  by (simp add: abort_lines_def)

text \<open>
  Claim C6, as the code has it: when the target is missing or not a regular file, or no
  rule file is discovered, \<open>run_scan\<close> launches nothing and prints the lines naming what
  is missing. When those lines print, it returns normally with the scanner unchanged, and
  \<open>main\<close> goes on to render the report of that scanner: the outcome of the whole run is
  the outcome of the rendering, and the whole run launches nothing. When one of the lines
  cannot be printed, the exception leaves \<open>run_scan\<close> and \<open>main\<close>, and nothing is
  rendered.
\<close>

theorem precondition_failure:
  assumes "target_missing e s \<or> discovered e s = []"
  shows "invocations (fst (run_scan e s)) = []
       \<and> ((\<forall>l \<in> set (abort_lines e s). print_raises e l = None) \<longrightarrow>
            run_scan e s = (map Print (abort_lines e s), Inr s)
            \<and> (s = args_scanner a \<longrightarrow>
                 main e a = (map Print (abort_lines e s) @ fst (output_results e s (a_output a)),
                             snd (output_results e s (a_output a)))
                 \<and> invocations (fst (main e a)) = []))
       \<and> ((\<exists>l \<in> set (abort_lines e s). print_raises e l \<noteq> None) \<longrightarrow>
            (\<exists>x. snd (run_scan e s) = Inl x
                 \<and> (s = args_scanner a \<longrightarrow> main e a = (fst (run_scan e s), Inl x))))"
proof -
  note r = run_scan_abort [OF assms]
  have 1: "invocations (fst (run_scan e s)) = []"
    using abort_lines_cases [of e s]
    by (auto simp: r and_then_def py_print_def return_io_def invocations_def
        split: option.splits)
  have 2: "run_scan e s = (map Print (abort_lines e s), Inr s)"
    if "\<forall>l \<in> set (abort_lines e s). print_raises e l = None"
    using abort_lines_cases [of e s] that
    by (auto simp: r and_then_def py_print_def return_io_def)
  have 3: "main e a = (map Print (abort_lines e s) @ fst (output_results e s (a_output a)),
                       snd (output_results e s (a_output a)))
           \<and> invocations (fst (main e a)) = []"
    if "\<forall>l \<in> set (abort_lines e s). print_raises e l = None" and "s = args_scanner a"
  proof -
    have m: "main e a = (map Print (abort_lines e s) @ fst (output_results e s (a_output a)),
                       snd (output_results e s (a_output a)))"
      using 2 [OF that(1)] that(2)
      by (cases "output_results e s (a_output a)") (simp add: main_def and_then_def)
    have "invocations (map Print (abort_lines e s)) = []"
      by (simp add: invocations_def filter_empty_conv)
    with m show ?thesis
      by (simp add: invocations_append invocations_output_results)
  qed
  have 4: "\<exists>x. snd (run_scan e s) = Inl x
             \<and> (s = args_scanner a \<longrightarrow> main e a = (fst (run_scan e s), Inl x))"
    if "\<exists>l \<in> set (abort_lines e s). print_raises e l \<noteq> None"
  proof -
    from that abort_lines_cases [of e s] have "\<exists>x. snd (run_scan e s) = Inl x"
      by (auto simp: r and_then_def py_print_def return_io_def split: option.splits)
    then obtain x where x: "snd (run_scan e s) = Inl x" ..
    then have "main e a = (fst (run_scan e s), Inl x)" if "s = args_scanner a"
      using that by (cases "run_scan e s") (simp add: main_def and_then_def)
    with x show ?thesis by blast
  qed
  from 1 2 3 4 show ?thesis by blast
qed

lemma ex_missing_target:
  "target_missing (ex_env rev ex_clock) (args_scanner ex_args_missing)
   \<or> discovered (ex_env rev ex_clock) (args_scanner ex_args_missing) = []"
  by code_simp

lemma ex_missing_target_lines:
  "abort_lines (ex_env rev ex_clock) (args_scanner ex_args_missing)
     = [''Error: Target file not found: /nope'']
   \<and> print_raises (ex_env rev ex_clock) ''Error: Target file not found: /nope'' = None"
  by code_simp

lemma ex_missing_rules:
  "target_missing (ex_env rev ex_clock) (args_scanner ex_args_no_rules)
   \<or> discovered (ex_env rev ex_clock) (args_scanner ex_args_no_rules) = []"
  by code_simp

lemma ex_missing_rules_lines:
  "abort_lines (ex_env rev ex_clock) (args_scanner ex_args_no_rules)
     = [''Error: Rules directory not found or not a directory: /norules'',
        ''No rule files found to scan with.'']
   \<and> print_raises (ex_env rev ex_clock)
        ''Error: Rules directory not found or not a directory: /norules'' = None
   \<and> print_raises (ex_env rev ex_clock) ''No rule files found to scan with.'' = None"
  by code_simp

lemma ex_missing_cafe:
  "target_missing (ex_env rev ex_clock) (args_scanner ex_args_cafe)
   \<or> discovered (ex_env rev ex_clock) (args_scanner ex_args_cafe) = []"
  by code_simp

lemma ex_missing_cafe_lines:
  "abort_lines (ex_env rev ex_clock) (args_scanner ex_args_cafe)
     = [''Error: Target file not found: /tmp/caf'' @ [CHR 0xE9]]
   \<and> print_raises (ex_env rev ex_clock)
        (''Error: Target file not found: /tmp/caf'' @ [CHR 0xE9]) \<noteq> None"
  by code_simp

text \<open>
  At the sample world: a missing target, a missing rules directory, and a missing target
  whose path the console cannot encode.
\<close>

theorem precondition_failure_witness:
  "run_scan (ex_env rev ex_clock) (args_scanner ex_args_missing) =
     ([Print ''Error: Target file not found: /nope''], Inr (args_scanner ex_args_missing))
   \<and> main (ex_env rev ex_clock) ex_args_missing =
       ([Print ''Error: Target file not found: /nope'']
        @ fst (output_results (ex_env rev ex_clock) (args_scanner ex_args_missing)
                 (a_output ex_args_missing)),
        snd (output_results (ex_env rev ex_clock) (args_scanner ex_args_missing)
               (a_output ex_args_missing)))
   \<and> invocations (fst (main (ex_env rev ex_clock) ex_args_missing)) = []
   \<and> run_scan (ex_env rev ex_clock) (args_scanner ex_args_no_rules) =
       ([Print ''Error: Rules directory not found or not a directory: /norules'',
         Print ''No rule files found to scan with.''],
        Inr (args_scanner ex_args_no_rules))
   \<and> (\<exists>x. snd (run_scan (ex_env rev ex_clock) (args_scanner ex_args_cafe)) = Inl x
          \<and> main (ex_env rev ex_clock) ex_args_cafe =
              (fst (run_scan (ex_env rev ex_clock) (args_scanner ex_args_cafe)), Inl x))"
proof -
  have 1: "run_scan (ex_env rev ex_clock) (args_scanner ex_args_missing) =
     ([Print ''Error: Target file not found: /nope''], Inr (args_scanner ex_args_missing))
   \<and> main (ex_env rev ex_clock) ex_args_missing =
       ([Print ''Error: Target file not found: /nope'']
        @ fst (output_results (ex_env rev ex_clock) (args_scanner ex_args_missing)
                 (a_output ex_args_missing)),
        snd (output_results (ex_env rev ex_clock) (args_scanner ex_args_missing)
               (a_output ex_args_missing)))
   \<and> invocations (fst (main (ex_env rev ex_clock) ex_args_missing)) = []"
    using precondition_failure [OF ex_missing_target, of ex_args_missing]
      ex_missing_target_lines
    by (simp add: invocations_def invocations_output_results [unfolded invocations_def])
  have 2: "run_scan (ex_env rev ex_clock) (args_scanner ex_args_no_rules) =
       ([Print ''Error: Rules directory not found or not a directory: /norules'',
         Print ''No rule files found to scan with.''],
        Inr (args_scanner ex_args_no_rules))"
    using precondition_failure [OF ex_missing_rules, of ex_args_no_rules]
      ex_missing_rules_lines by simp
  have 3: "\<exists>x. snd (run_scan (ex_env rev ex_clock) (args_scanner ex_args_cafe)) = Inl x
          \<and> main (ex_env rev ex_clock) ex_args_cafe =
              (fst (run_scan (ex_env rev ex_clock) (args_scanner ex_args_cafe)), Inl x)"
    using precondition_failure [OF ex_missing_cafe, of ex_args_cafe]
      ex_missing_cafe_lines by simp
  from 1 2 3 show ?thesis by blast
qed

text \<open>
  Claim C6 as stated fails: with a missing target the whole run prints the error, then
  still prints a report with zero rules, and ends normally with exit status 0.
\<close>

theorem missing_target_run_succeeds:
  "main (ex_env rev ex_clock) ex_args_missing =
     ([Print ''Error: Target file not found: /nope'',
       Print (join newline
                [''YARA Scan Results'',
                 replicate 37 CHR ''='',
                 ''Target File: /nope'',
                 ''Rules Directory: /rules'',
                 ''Scan Time: 2024-01-01T00:00:00'',
                 ''Total Rules: 0'',
                 ''Matching Rules: 0'',
                 replicate 37 CHR ''='' @ newline])],
      Inr (args_scanner ex_args_missing))
   \<and> exit_status (snd (main (ex_env rev ex_clock) ex_args_missing)) = 0"
  by code_simp

section \<open>The report\<close>

lemma output_text_lines:
  "output_text e s =
     join newline
       (output_lines e s
        @ concat (map match_block (filter matches (results s)))
        @ map error_line (filter errored_non_match (results s)))"
  by (simp add: output_text_def sorted_results_def sort_key_partition append_results_eq
      blocks_of_matches lines_of_non_matches)



lemma output_results_console:
  assumes "\<not> truthy f" and "print_raises e (report_content e s) = None"
  shows "output_results e s f = ([Print (report_content e s)], Inr s)"
  using assms
  by (cases "output_format s = ''json''")
     (simp_all add: output_results_def report_content_def and_then_def py_print_def
        return_io_def)









text \<open>
  Claim C8: the text report is the header, then one block of three lines for each matched
  verdict (its name, its stdout, a rule), then one line for each non-matched verdict with
  an error description, naming the rule and the error; a non-matched verdict without an
  error description adds nothing. Within each part the verdicts keep the order of
  collection.
\<close>

theorem text_report_contents:
  "output_text e s =
     join newline
       (output_lines e s
        @ concat (map match_block (filter matches (results s)))
        @ map error_line (filter errored_non_match (results s)))"
  by (rule output_text_lines)

lemma ex_mixed_lines:
  "join newline
     (output_lines (ex_env rev ex_clock) ex_mixed
      @ concat (map match_block (filter matches (results ex_mixed)))
      @ map error_line (filter errored_non_match (results ex_mixed)))
   = join newline
       [''YARA Scan Results'',
        replicate 37 CHR ''='',
        ''Target File: /tmp/sample.bin'',
        ''Rules Directory: /rules'',
        ''Scan Time: 2024-01-01T00:00:00'',
        ''Total Rules: 4'',
        ''Matching Rules: 2'',
        replicate 37 CHR ''='' @ newline,
        ''[+] MATCH: b.yara'',
        ''rule_b [] /tmp/sample.bin'',
        replicate 37 CHR ''-'',
        ''[+] MATCH: a.yar'',
        ''rule_a [] /tmp/sample.bin'',
        replicate 37 CHR ''-'',
        ''[!] ERROR: slow.yar - Timeout after 20 seconds'']"
  by code_simp

theorem text_report_contents_witness:
  "output_text (ex_env rev ex_clock) ex_mixed =
     join newline
       [''YARA Scan Results'',
        replicate 37 CHR ''='',
        ''Target File: /tmp/sample.bin'',
        ''Rules Directory: /rules'',
        ''Scan Time: 2024-01-01T00:00:00'',
        ''Total Rules: 4'',
        ''Matching Rules: 2'',
        replicate 37 CHR ''='' @ newline,
        ''[+] MATCH: b.yara'',
        ''rule_b [] /tmp/sample.bin'',
        replicate 37 CHR ''-'',
        ''[+] MATCH: a.yar'',
        ''rule_a [] /tmp/sample.bin'',
        replicate 37 CHR ''-'',
        ''[!] ERROR: slow.yar - Timeout after 20 seconds'']"
  using text_report_contents [of "ex_env rev ex_clock" ex_mixed]
  by (simp only: ex_mixed_lines)

lemma collect_loop_printed:
  "snd (collect_loop e s futs) = Inr s' \<Longrightarrow> (rule, Inl x) \<in> set futs \<Longrightarrow>
     print_raises e (''Error processing rule '' @ rule @ '': '' @ exn_str x) = None"
  by (induction e s futs arbitrary: s' rule: collect_loop.induct)
     (auto simp: py_print_def split: prod.splits sum.splits option.splits)

lemma returned_rule_files:
  "map rule_file (returned (map (\<lambda>rule. snd (scan_with_rule e s rule)) rs))
   = filter (\<lambda>r. print_raises e (progress_line e r) = None) rs"
proof (induction rs)
  case Nil
  show ?case by simp
next
  case (Cons r rs)
  show ?case
  proof (cases "print_raises e (progress_line e r)")
    case None
    from scan_with_rule_printed [OF None, of s] obtain v
      where "snd (scan_with_rule e s r) = Inr v" "rule_file v = r"
      by auto
    with Cons None show ?thesis by simp
  next
    case (Some m)
    then have "snd (scan_with_rule e s r) = Inl (Exception m)"
      by (simp add: scan_with_rule_def Let_def and_then_def py_print_def)
    with Cons Some show ?thesis by simp
  qed
qed

lemma run_scan_collected:
  assumes r: "snd (run_scan e s) = Inr s'"
    and t: "\<not> target_missing e s" and d: "discovered e s \<noteq> []"
  shows "snd (collect_loop e s (map (\<lambda>rule. (rule, snd (scan_with_rule e s rule)))
                                  (as_completed e (discovered e s)))) = Inr s'"
proof -
  from r t obtain rs where f: "snd (find_rule_files e s) = Inr rs"
    by (auto simp: run_scan_def snd_and_then split: sum.splits)
  then have rs: "rs = discovered e s" by (rule find_rule_files_value)
  with r t d f show ?thesis
    by (auto simp: run_scan_def snd_and_then return_io_def Let_def
        split: sum.splits if_splits)
qed

text \<open>
  Claim C10, as the code has it: in a run that returns, the results grow by one verdict
  for each worker that returned, so both renderings report the earlier results plus that
  number as the total, which need not be the number of discovered rule files. A worker
  raises exactly when its progress line cannot be printed; it adds no verdict, and the
  run returns only if the collector's error line for it was printed. When that line
  cannot be printed either, the exception leaves the run and no report is rendered.
\<close>

theorem total_is_collected_count:
  assumes "snd (run_scan e s) = Inr s'"
    and "\<not> target_missing e s" and "discovered e s \<noteq> []"
  shows "map rule_file (results s') =
           map rule_file (results s)
           @ filter (\<lambda>r. print_raises e (progress_line e r) = None)
               (as_completed e (discovered e s))
       \<and> (\<forall>r m. r \<in> set (as_completed e (discovered e s))
                \<and> print_raises e (progress_line e r) = Some m \<longrightarrow>
                print_raises e (''Error processing rule '' @ r @ '': '' @ m) = None)
       \<and> output_lines e' s' ! 5 =
           ''Total Rules: ''
           @ str_nat (length (results s)
                      + length (filter (\<lambda>r. print_raises e (progress_line e r) = None)
                                  (as_completed e (discovered e s))))
       \<and> map_of (output_data e' s') ''total_rules'' =
           Some (JInt (int (length (results s)
                      + length (filter (\<lambda>r. print_raises e (progress_line e r) = None)
                                  (as_completed e (discovered e s))))))
       \<and> (\<not> truthy f \<and> print_raises e' (report_content e' s') = None \<longrightarrow>
            output_results e' s' f = ([Print (report_content e' s')], Inr s'))"
proof -
  have n: "map rule_file (new_verdicts e s) =
      filter (\<lambda>r. print_raises e (progress_line e r) = None) (as_completed e (discovered e s))"
    using assms(2,3) by (simp add: new_verdicts_def returned_rule_files)
  have res: "results s' = results s @ new_verdicts e s"
    using run_scan_state [OF assms(1)] by simp
  then have 1: "map rule_file (results s') =
           map rule_file (results s)
           @ filter (\<lambda>r. print_raises e (progress_line e r) = None)
               (as_completed e (discovered e s))"
    by (simp add: n)
  have len: "length (results s') = length (results s)
      + length (filter (\<lambda>r. print_raises e (progress_line e r) = None)
                  (as_completed e (discovered e s)))"
    using arg_cong [OF 1, of length] by simp
  have 2: "print_raises e (''Error processing rule '' @ r @ '': '' @ m) = None"
    if "r \<in> set (as_completed e (discovered e s))"
      and "print_raises e (progress_line e r) = Some m" for r m
  proof -
    from that(2) have "snd (scan_with_rule e s r) = Inl (Exception m)"
      by (simp add: scan_with_rule_def Let_def and_then_def py_print_def)
    with that(1) have "(r, Inl (Exception m)) \<in>
        set (map (\<lambda>rule. (rule, snd (scan_with_rule e s rule)))
               (as_completed e (discovered e s)))"
      by force
    from collect_loop_printed [OF run_scan_collected [OF assms] this] show ?thesis
      by simp
  qed
  have 3: "output_lines e' s' ! 5 = ''Total Rules: '' @ str_nat (length (results s'))"
    by (simp add: output_lines_def)
  have 4: "map_of (output_data e' s') ''total_rules'' = Some (JInt (int (length (results s'))))"
    by (simp add: output_data_def)
  from 1 2 3 4 len output_results_console [of f e' s'] show ?thesis
    by (simp only:) blast
qed

lemma ex_second_ready:
  "\<not> target_missing (ex_env (\<lambda>xs. xs) ex_clock) ex_after_first
   \<and> discovered (ex_env (\<lambda>xs. xs) ex_clock) ex_after_first
       = [''/rules/a.yar'', ''/rules/b.yara'']
   \<and> filter (\<lambda>r. print_raises (ex_env (\<lambda>xs. xs) ex_clock)
                    (progress_line (ex_env (\<lambda>xs. xs) ex_clock) r) = None)
        (as_completed (ex_env (\<lambda>xs. xs) ex_clock) [''/rules/a.yar'', ''/rules/b.yara''])
       = [''/rules/a.yar'', ''/rules/b.yara'']
   \<and> map rule_file (results ex_after_first) = [''/rules/b.yara'', ''/rules/a.yar'']
   \<and> \<not> truthy None
   \<and> print_raises (ex_env rev ex_clock) (report_content (ex_env rev ex_clock) ex_after_second)
       = None
   \<and> str_nat 4 = ''4''
   \<and> length (results ex_after_first) = 2"
  by code_simp

text \<open>
  At the sample world: the second run of a scanner over two discovered rules reports four
  rules in total.
\<close>

theorem total_is_collected_count_witness:
  "snd (run_scan (ex_env (\<lambda>xs. xs) ex_clock) ex_after_first) = Inr ex_after_second
   \<and> discovered (ex_env (\<lambda>xs. xs) ex_clock) ex_after_first
       = [''/rules/a.yar'', ''/rules/b.yara'']
   \<and> map rule_file (results ex_after_second) =
       [''/rules/b.yara'', ''/rules/a.yar'', ''/rules/a.yar'', ''/rules/b.yara'']
   \<and> output_lines (ex_env rev ex_clock) ex_after_second ! 5 = ''Total Rules: 4''
   \<and> map_of (output_data (ex_env rev ex_clock) ex_after_second) ''total_rules''
       = Some (JInt 4)
   \<and> output_results (ex_env rev ex_clock) ex_after_second None
       = ([Print (report_content (ex_env rev ex_clock) ex_after_second)], Inr ex_after_second)"
proof -
  have d: "discovered (ex_env (\<lambda>xs. xs) ex_clock) ex_after_first \<noteq> []"
    using ex_second_ready by simp
  have t: "\<not> target_missing (ex_env (\<lambda>xs. xs) ex_clock) ex_after_first"
    using ex_second_ready by simp
  show ?thesis
    using total_is_collected_count [OF ex_second_run t d, of "ex_env rev ex_clock" None]
      ex_second_run ex_second_ready
    by simp
qed

text \<open>
  Claim C10 as stated fails: of two discovered rules one has a name the ASCII console
  cannot encode. Its worker raises at the progress line, the collector's error line for
  it raises in turn, and the whole run ends with that exception and exit status 1: the
  rule is not dropped from a report, no report is rendered.
\<close>

theorem raising_worker_aborts_run:
  "snd (find_rule_files (ex_env rev ex_clock) (args_scanner ex_args_more))
     = Inr [''/more/a.yar'', ''/more/caf'' @ [CHR 0xE9] @ ''.yar'']
   \<and> main (ex_env rev ex_clock) ex_args_more =
       ([Print ''Found 2 YARA rule files'',
         Print ''Scanning with rule: a.yar...'',
         Exec [Some ''yara'', Some ''-s'', Some ''-m'', Some ''-g'', Some ''/more/a.yar'',
               Some ''/tmp/sample.bin''] 20],
        Inl (Exception ''ascii codec cannot encode character: ordinal not in range(128)''))
   \<and> exit_status (snd (main (ex_env rev ex_clock) ex_args_more)) = 1"
  by code_simp

end
